theory Spec2Isabelle
  imports Main "HOL-Library.Option_ord"
begin

section \<open>The BigQuery adapter of sayn: data\<close>

text \<open>
  The development follows \<^verbatim>\<open>src/sayn/database/bigquery.py\<close>. Python dictionaries with a
  fixed set of string keys are records whose optional keys are \<open>option\<close> fields; the nested
  dictionary \<^verbatim>\<open>self._requested_objects\<close> is a map; exceptions are values of \<open>error\<close>.
\<close>

abbreviation nl :: char where
  "nl \<equiv> CHR 0x0A"

text \<open>
  One entry of the \<^verbatim>\<open>columns\<close> list of the keyword dictionary \<^verbatim>\<open>**ddl\<close>:
  \<^verbatim>\<open>create_table\<close> reads \<^verbatim>\<open>c.get("type")\<close> only.
\<close>

record column =
  col_name :: string
  col_type :: "string option"

text \<open>
  The keyword dictionary \<^verbatim>\<open>**ddl\<close> as \<^verbatim>\<open>DDL.get_ddl\<close> builds it. A key that may be
  missing is an \<open>option\<close>; for \<^verbatim>\<open>partition\<close> and \<^verbatim>\<open>cluster\<close> the code does not tell
  a missing key from the value \<^verbatim>\<open>None\<close> (\<^verbatim>\<open>ddl.get(k) or ...\<close>).
\<close>

record ddl =
  ddl_columns :: "column list option"
  ddl_partition :: "string option"
  ddl_cluster :: "string list option"
  ddl_post_hook :: "string list"

text \<open>
  An entry \<^verbatim>\<open>self._requested_objects[schema][table]\<close>: the key \<^verbatim>\<open>type\<close> holds
  \<^verbatim>\<open>None\<close>, \<^verbatim>\<open>"table"\<close> or \<^verbatim>\<open>"view"\<close>; the keys \<^verbatim>\<open>partition\<close> and \<^verbatim>\<open>cluster\<close>
  are present only when \<^verbatim>\<open>_introspect\<close> stored them.
\<close>

record db_info =
  info_type :: "string option"
  info_partition :: "string option"
  info_cluster :: "string list option"

type_synonym requested_objects = "string option \<rightharpoonup> (string \<rightharpoonup> db_info)"

text \<open>The keyword arguments \<^verbatim>\<open>create_table\<close> hands to \<^verbatim>\<open>template.render\<close>.\<close>

record render_args =
  table_name :: string
  full_name :: string
  view_exists :: bool
  table_exists :: bool
  select :: "string option"
  replace :: bool
  can_replace_table :: bool
  needs_cascade :: bool
  cannot_specify_ddl_select :: bool
  all_columns_have_type :: nat
  ddl_kwargs :: ddl

section \<open>Qualified names and features\<close>

text \<open>
  \<^verbatim>\<open>def fully_qualify(name, schema=None):
      return f"{schema+'.' if schema is not None else ''}{name}"\<close>
\<close>

definition fully_qualify :: "string \<Rightarrow> string option \<Rightarrow> string" where
  "fully_qualify name schema =
     (case schema of Some s \<Rightarrow> s @ ''.'' | None \<Rightarrow> '''') @ name"

text \<open>
  \<^verbatim>\<open>def feature(self, feature):
      return feature in ("CAN REPLACE TABLE", "CAN REPLACE VIEW", "CANNOT CHANGE SCHEMA")\<close>
\<close>

definition declared_features :: "string list" where
  "declared_features = [''CAN REPLACE TABLE'', ''CAN REPLACE VIEW'', ''CANNOT CHANGE SCHEMA'']"

definition feature :: "string \<Rightarrow> bool" where
  "feature f = (f \<in> set declared_features)"

section \<open>\<^verbatim>\<open>create_table\<close>\<close>

text \<open>
  The template \<^verbatim>\<open>create_table.sql\<close> is not part of the sources: it is the parameter
  \<open>template\<close>, any function from the rendering arguments to the text of the create statement.
\<close>

text \<open>
  \<^verbatim>\<open>schema in self._requested_objects and table in self._requested_objects[schema]\<close>:
  \<open>Some\<close> of the entry when both tests succeed, \<open>None\<close> for the \<^verbatim>\<open>else\<close> branch, where
  \<^verbatim>\<open>db_info = dict()\<close>.
\<close>

definition lookup_info :: "requested_objects \<Rightarrow> string option \<Rightarrow> string \<Rightarrow> db_info option" where
  "lookup_info ro schema table =
     (case ro schema of None \<Rightarrow> None | Some objs \<Rightarrow> objs table)"

text \<open>\<^verbatim>\<open>db_info.get("type")\<close>, which is \<^verbatim>\<open>None\<close> on the empty dictionary.\<close>

definition object_type :: "requested_objects \<Rightarrow> string option \<Rightarrow> string \<Rightarrow> string option" where
  "object_type ro schema table =
     (case lookup_info ro schema table of None \<Rightarrow> None | Some i \<Rightarrow> info_type i)"

definition cur_table_exists :: "requested_objects \<Rightarrow> string option \<Rightarrow> string \<Rightarrow> bool" where
  "cur_table_exists ro schema table =
     (case lookup_info ro schema table of
        None \<Rightarrow> True
      | Some i \<Rightarrow> info_type i = Some ''table'')"

definition cur_view_exists :: "requested_objects \<Rightarrow> string option \<Rightarrow> string \<Rightarrow> bool" where
  "cur_view_exists ro schema table =
     (case lookup_info ro schema table of
        None \<Rightarrow> True
      | Some i \<Rightarrow> info_type i = Some ''view'')"

text \<open>\<^verbatim>\<open>db_info.get("partition", "")\<close>, and \<^verbatim>\<open>""\<close> in the \<^verbatim>\<open>else\<close> branch.\<close>

definition partition_column :: "requested_objects \<Rightarrow> string option \<Rightarrow> string \<Rightarrow> string" where
  "partition_column ro schema table =
     (case lookup_info ro schema table of
        None \<Rightarrow> ''''
      | Some i \<Rightarrow> (case info_partition i of None \<Rightarrow> '''' | Some p \<Rightarrow> p))"

text \<open>\<^verbatim>\<open>set(db_info.get("cluster", set()))\<close>, and \<^verbatim>\<open>set()\<close> in the \<^verbatim>\<open>else\<close> branch.\<close>

definition cluster_column :: "requested_objects \<Rightarrow> string option \<Rightarrow> string \<Rightarrow> string set" where
  "cluster_column ro schema table =
     (case lookup_info ro schema table of
        None \<Rightarrow> {}
      | Some i \<Rightarrow> (case info_cluster i of None \<Rightarrow> {} | Some cs \<Rightarrow> set cs))"

text \<open>\<^verbatim>\<open>des_partitioned = ddl.get("partition") or ""\<close>\<close>

definition des_partitioned :: "ddl \<Rightarrow> string" where
  "des_partitioned d =
     (case ddl_partition d of None \<Rightarrow> '''' | Some p \<Rightarrow> (if p = '''' then '''' else p))"

text \<open>\<^verbatim>\<open>des_clustered = set(ddl.get("cluster") or set())\<close>\<close>

definition des_clustered :: "ddl \<Rightarrow> string set" where
  "des_clustered d =
     (case ddl_cluster d of None \<Rightarrow> {} | Some cs \<Rightarrow> (if cs = [] then {} else set cs))"

text \<open>
  The variable \<^verbatim>\<open>drop\<close> of \<^verbatim>\<open>create_table\<close>:
  \<^verbatim>\<open>if des_clustered == cluster_column and des_partitioned == partition_column:
      drop = ""
  elif db_info.get("type") == "table":
      drop = f"DROP TABLE IF EXISTS {full_name};\n"
  else:
      drop = f"DROP VIEW IF EXISTS {full_name};\n"\<close>
\<close>

definition drop_stmt :: "requested_objects \<Rightarrow> string \<Rightarrow> string option \<Rightarrow> ddl \<Rightarrow> string" where
  "drop_stmt ro table schema d =
     (if des_clustered d = cluster_column ro schema table
         \<and> des_partitioned d = partition_column ro schema table
      then ''''
      else if object_type ro schema table = Some ''table''
      then ''DROP TABLE IF EXISTS '' @ fully_qualify table schema @ '';'' @ [nl]
      else ''DROP VIEW IF EXISTS '' @ fully_qualify table schema @ '';'' @ [nl])"

text \<open>
  \<^verbatim>\<open>len([c for c in ddl.get("columns", dict()) if c.get("type") is not None])\<close>
\<close>

definition typed_columns :: "ddl \<Rightarrow> nat" where
  "typed_columns d =
     length (filter (\<lambda>c. col_type c \<noteq> None)
       (case ddl_columns d of None \<Rightarrow> [] | Some cs \<Rightarrow> cs))"

text \<open>
  The arguments of \<^verbatim>\<open>template.render\<close>. The parameter \<^verbatim>\<open>replace\<close> of \<^verbatim>\<open>create_table\<close>
  is not among them: the call passes the constant \<^verbatim>\<open>replace=True\<close>.
\<close>

definition create_table_args ::
  "requested_objects \<Rightarrow> string \<Rightarrow> string option \<Rightarrow> string option \<Rightarrow> ddl \<Rightarrow> render_args" where
  "create_table_args ro table schema sel d =
     \<lparr> table_name = table,
       full_name = fully_qualify table schema,
       view_exists = cur_view_exists ro schema table,
       table_exists = cur_table_exists ro schema table,
       select = sel,
       replace = True,
       can_replace_table = feature ''CAN REPLACE TABLE'',
       needs_cascade = feature ''NEEDS CASCADE'',
       cannot_specify_ddl_select = feature ''CANNOT SPECIFY DDL IN SELECT'',
       all_columns_have_type = typed_columns d,
       ddl_kwargs = d \<rparr>"

text \<open>
  \<^verbatim>\<open>query = template.render(...); query = drop + query; return query\<close>
\<close>

definition create_table ::
  "(render_args \<Rightarrow> string) \<Rightarrow> requested_objects \<Rightarrow> string \<Rightarrow> string option \<Rightarrow> string option
     \<Rightarrow> bool \<Rightarrow> ddl \<Rightarrow> string" where
  "create_table template ro table schema sel rep d =
     drop_stmt ro table schema d @ template (create_table_args ro table schema sel d)"

text \<open>
  \<^verbatim>\<open>def move_table(self, src_table, dst_table, src_schema=None, dst_schema=None, **ddl):
      full_src_table = f"{src_schema + '.' if src_schema is not None else ''}{src_table}"
      select = f"SELECT * FROM {full_src_table}"
      create_or_replace = self.create_table(dst_table, dst_schema, select=select, replace=True, **ddl)
      return "\n\n".join((create_or_replace, f"DROP TABLE {full_src_table}"))\<close>
\<close>

definition move_table ::
  "(render_args \<Rightarrow> string) \<Rightarrow> requested_objects \<Rightarrow> string \<Rightarrow> string \<Rightarrow> string option
     \<Rightarrow> string option \<Rightarrow> ddl \<Rightarrow> string" where
  "move_table template ro src_table dst_table src_schema dst_schema d =
     (let full_src_table = (case src_schema of Some s \<Rightarrow> s @ ''.'' | None \<Rightarrow> '''') @ src_table;
          sel = ''SELECT * FROM '' @ full_src_table;
          create_or_replace = create_table template ro dst_table dst_schema (Some sel) True d
      in create_or_replace @ [nl, nl] @ ''DROP TABLE '' @ full_src_table)"

text \<open>
  A stand-in for the template, used where a concrete script is evaluated: it prints the
  head of a create statement for the qualified name.
\<close>

definition sample_template :: "render_args \<Rightarrow> string" where
  "sample_template a = ''CREATE OR REPLACE TABLE '' @ full_name a"

section \<open>Errors\<close>

text \<open>
  Python values as far as the validators meet them: \<^verbatim>\<open>None\<close>, strings, lists and tuples.
\<close>

datatype pyval = PNone | PStr string | PList "pyval list" | PTuple "pyval list"

text \<open>
  The exceptions of the module, one constructor for each \<^verbatim>\<open>raise\<close> and for each failing
  builtin:
  \<^item> \<open>Duplicate_columns dupes\<close>: \<^verbatim>\<open>ValueError(f"Duplicate columns: {','.join(dupes)}")\<close>;
    the message joins the set \<^verbatim>\<open>dupes\<close> in its iteration order, so the model keeps the set;
  \<^item> \<open>Cluster_not_in_ddl missing\<close>:
    \<^verbatim>\<open>ValueError(f'Cluster contains columns not specified in the ddl: "{missing_columns}"')\<close>;
  \<^item> \<open>Unhashable_list\<close>: the \<^verbatim>\<open>TypeError\<close> (unhashable type: list) of building a set with a
    member that is a list or holds one;
  \<^item> \<open>Len_of_None\<close>: the \<^verbatim>\<open>TypeError\<close> of \<^verbatim>\<open>len(None)\<close>;
  \<^item> \<open>Three_level_objects\<close>: \<^verbatim>\<open>ValueError("3 level db objects are not currently supported")\<close>;
  \<^item> \<open>Read_data_error msg\<close>: whatever \<^verbatim>\<open>self.read_data\<close> raises;
  \<^item> \<open>Key_error\<close>: the \<^verbatim>\<open>KeyError\<close> of a subscript with a missing key.
\<close>

datatype error =
    Duplicate_columns "string set"
  | Cluster_not_in_ddl "pyval set"
  | Unhashable_list
  | Len_of_None
  | Three_level_objects
  | Read_data_error string
  | Key_error

section \<open>The subscripts of \<^verbatim>\<open>create_table\<close>\<close>

text \<open>
  \<^verbatim>\<open>d[k]\<close> raises \<^verbatim>\<open>KeyError\<close> when the key is missing. The subscripts are the only operations
  of \<^verbatim>\<open>create_table\<close> that can raise: every other access is a \<^verbatim>\<open>.get\<close>, a membership test, a
  comparison or the formatting of a string.
\<close>

definition subscript :: "('k \<rightharpoonup> 'v) \<Rightarrow> 'k \<Rightarrow> error + 'v" where
  "subscript m k = (case m k of None \<Rightarrow> Inl Key_error | Some v \<Rightarrow> Inr v)"

text \<open>
  The first statement of \<^verbatim>\<open>create_table\<close>, with its subscripts as results:
  \<^verbatim>\<open>if (schema in self._requested_objects
      and table in self._requested_objects[schema]):
      db_info = self._requested_objects[schema][table]
  else:
      db_info = dict()\<close>
  The result is \<open>Some\<close> of the entry, or \<open>None\<close> for the empty dictionary of the \<^verbatim>\<open>else\<close>
  branch.
\<close>

definition read_db_info ::
  "requested_objects \<Rightarrow> string option \<Rightarrow> string \<Rightarrow> error + db_info option" where
  "read_db_info ro schema table =
     (if ro schema \<noteq> None
      then (case subscript ro schema of
              Inl e \<Rightarrow> Inl e
            | Inr objs \<Rightarrow>
                if objs table \<noteq> None
                then (case subscript ro schema of
                        Inl e \<Rightarrow> Inl e
                      | Inr objs' \<Rightarrow>
                          (case subscript objs' table of
                             Inl e \<Rightarrow> Inl e
                           | Inr db_info \<Rightarrow> Inr (Some db_info)))
                else Inr None)
      else Inr None)"

text \<open>
  \<^verbatim>\<open>create_table\<close> as a result: the exception of its first statement, or the script that the
  rest of the body returns.
\<close>

definition create_table_result ::
  "(render_args \<Rightarrow> string) \<Rightarrow> requested_objects \<Rightarrow> string \<Rightarrow> string option \<Rightarrow> string option
     \<Rightarrow> bool \<Rightarrow> ddl \<Rightarrow> error + string" where
  "create_table_result template ro table schema sel rep d =
     (case read_db_info ro schema table of
        Inl e \<Rightarrow> Inl e
      | Inr db_info \<Rightarrow> Inr (create_table template ro table schema sel rep d))"

section \<open>The rendered create statement\<close>


section \<open>The validators of \<^verbatim>\<open>DDL\<close>\<close>

text \<open>
  An element of the raw \<^verbatim>\<open>columns\<close> list is a string or a column dictionary.
  \<^verbatim>\<open>def transform_str_cols(cls, v):
      if v is not None and isinstance(v, List):
          return [{"name": c} if isinstance(c, str) else c for c in v]\<close>
\<close>

datatype raw_column = Str string | Dict column

definition transform_str_cols :: "raw_column list \<Rightarrow> column list" where
  "transform_str_cols v =
     map (\<lambda>c. case c of Str s \<Rightarrow> \<lparr>col_name = s, col_type = None\<rparr> | Dict d \<Rightarrow> d) v"

text \<open>
  \<^verbatim>\<open>collections.Counter\<close> of a list: the keys in the order of their first occurrence, each
  with the number of its occurrences.
\<close>

fun counter_add :: "'a \<Rightarrow> ('a \<times> nat) list \<Rightarrow> ('a \<times> nat) list" where
  "counter_add k [] = [(k, 1)]"
| "counter_add k ((k', n) # kvs) =
     (if k = k' then (k', Suc n) # kvs else (k', n) # counter_add k kvs)"

definition Counter :: "'a list \<Rightarrow> ('a \<times> nat) list" where
  "Counter xs = foldl (\<lambda>acc k. counter_add k acc) [] xs"

text \<open>
  \<^verbatim>\<open>def columns_unique(cls, v):
      dupes = {k for k, v in Counter([e.name for e in v]).items() if v > 1}
      if len(dupes) > 0:
          raise ValueError(f"Duplicate columns: {','.join(dupes)}")
      else:
          return v\<close>
\<close>

definition dupes :: "column list \<Rightarrow> string set" where
  "dupes v = set (map fst (filter (\<lambda>(k, n). n > 1) (Counter (map col_name v))))"

definition columns_unique :: "column list \<Rightarrow> error + column list" where
  "columns_unique v =
     (if card (dupes v) > 0 then Inl (Duplicate_columns (dupes v)) else Inr v)"

text \<open>The model \<^verbatim>\<open>DDL.Properties\<close>: both fields are optional.\<close>

record properties =
  prop_partition :: "string option"
  prop_cluster :: "string list option"

text \<open>
  Iterating over a pydantic model yields its \<^verbatim>\<open>(field name, value)\<close> pairs in the order of
  the fields (\<^verbatim>\<open>BaseModel.__iter__\<close>); that is what \<^verbatim>\<open>set(v)\<close> receives when \<^verbatim>\<open>v\<close> is the
  \<^verbatim>\<open>Properties\<close> object.
\<close>

definition iter_properties :: "properties \<Rightarrow> pyval list" where
  "iter_properties v =
     [PTuple [PStr ''partition'', (case prop_partition v of None \<Rightarrow> PNone | Some p \<Rightarrow> PStr p)],
      PTuple [PStr ''cluster'',
              (case prop_cluster v of None \<Rightarrow> PNone | Some cs \<Rightarrow> PList (map PStr cs))]]"

text \<open>A tuple is hashable when its members are; a list never is.\<close>

fun hashable :: "pyval \<Rightarrow> bool" where
  "hashable PNone = True"
| "hashable (PStr s) = True"
| "hashable (PList xs) = False"
| "hashable (PTuple xs) = list_all hashable xs"

text \<open>\<^verbatim>\<open>set(xs)\<close>: hashes every member.\<close>

definition py_set :: "pyval list \<Rightarrow> error + pyval set" where
  "py_set xs = (if list_all hashable xs then Inr (set xs) else Inl Unhashable_list)"

text \<open>
  The second argument is \<^verbatim>\<open>values.get("columns")\<close>: \<open>None\<close> when the field \<^verbatim>\<open>columns\<close>
  failed its own validation and is missing from \<^verbatim>\<open>values\<close>.
  \<^verbatim>\<open>def validate_properties(cls, v, values):
      if v is not None and v.cluster is not None:
          if len(values.get("columns")) > 0:
              missing_columns = set(v) - set([c.name for c in values.get("columns")])
              if len(missing_columns) > 0:
                  raise ValueError(
                      f'Cluster contains columns not specified in the ddl: "{missing_columns}"')
      return v\<close>
\<close>

definition validate_properties ::
  "properties option \<Rightarrow> column list option \<Rightarrow> error + properties option" where
  "validate_properties v values_columns =
     (case v of
        None \<Rightarrow> Inr v
      | Some p \<Rightarrow>
          (case prop_cluster p of
             None \<Rightarrow> Inr v
           | Some cl \<Rightarrow>
               (case values_columns of
                  None \<Rightarrow> Inl Len_of_None
                | Some cols \<Rightarrow>
                    if length cols > 0 then
                      (case py_set (iter_properties p) of
                         Inl e \<Rightarrow> Inl e
                       | Inr s \<Rightarrow>
                           (let missing_columns = s - set (map (\<lambda>c. PStr (col_name c)) cols)
                            in if card missing_columns > 0
                               then Inl (Cluster_not_in_ddl missing_columns)
                               else Inr v))
                    else Inr v)))"

section \<open>\<^verbatim>\<open>_introspect\<close>\<close>

text \<open>
  A row of the catalog query: \<^verbatim>\<open>name\<close>, \<^verbatim>\<open>type\<close> and the array \<^verbatim>\<open>columns\<close> of
  \<^verbatim>\<open>STRUCT(column_name, is_partition, clustering_ordinal_position)\<close>.
\<close>

record column_row =
  column_name :: string
  is_partition :: bool
  clustering_ordinal_position :: "int option"

record object_row =
  row_name :: string
  row_type :: string
  row_columns :: "column_row list"

text \<open>
  The query text is fixed but for the two values the f-string interpolates: the dataset after
  \<^verbatim>\<open>FROM\<close> and the object names of the \<^verbatim>\<open>IN\<close> list. The model keeps these two.
\<close>

record catalog_query =
  query_dataset :: "string option"
  query_objects :: "string list"

text \<open>
  \<^verbatim>\<open>self._requested_objects\<close> and the queries handed to \<^verbatim>\<open>self.read_data\<close> so far.
\<close>

record istate =
  requested :: requested_objects
  issued :: "catalog_query list"

text \<open>
  \<^verbatim>\<open>db_objects = {o["name"]: {"type": o["type"], "columns": o["columns"]} for o in rows}\<close>:
  a later row replaces an earlier one of the same name.
\<close>

definition db_objects :: "object_row list \<Rightarrow> (string \<rightharpoonup> object_row)" where
  "db_objects rows = foldl (\<lambda>m r. m(row_name r \<mapsto> r)) Map.empty rows"

text \<open>
  The loop over \<^verbatim>\<open>db_object["columns"]\<close>, on the entry and the list \<^verbatim>\<open>cluster_cols\<close>:
  \<^verbatim>\<open>for c in db_object["columns"]:
      if c["is_partition"] is True:
          self._requested_objects[dataset][obj_name]["partition"] = c["column_name"]
      if c["clustering_ordinal_position"] is not None:
          cluster_cols.append(c["column_name"])\<close>
\<close>

fun scan_columns :: "column_row list \<Rightarrow> db_info \<Rightarrow> string list \<Rightarrow> db_info \<times> string list" where
  "scan_columns [] entry cluster_cols = (entry, cluster_cols)"
| "scan_columns (c # cs) entry cluster_cols =
     scan_columns cs
       (if is_partition c then entry\<lparr>info_partition := Some (column_name c)\<rparr> else entry)
       (if clustering_ordinal_position c \<noteq> None then cluster_cols @ [column_name c]
        else cluster_cols)"

text \<open>
  The body of \<^verbatim>\<open>for obj_name in objects\<close>: the entry stored under \<^verbatim>\<open>obj_name\<close>.
  \<^verbatim>\<open>self._requested_objects[dataset][obj_name] = {"type": None}
  if obj_name in db_objects:
      db_object = db_objects[obj_name]
      if db_object["type"] == "BASE TABLE": ...["type"] = "table"
      elif db_object["type"] == "VIEW": ...["type"] = "view"
      cluster_cols = [] ... (the loop above)
      if cluster_cols: ...["cluster"] = cluster_cols\<close>
\<close>

definition introspect_object :: "(string \<rightharpoonup> object_row) \<Rightarrow> string \<Rightarrow> db_info" where
  "introspect_object dbo obj_name =
     (let entry = \<lparr>info_type = None, info_partition = None, info_cluster = None\<rparr>
      in case dbo obj_name of
           None \<Rightarrow> entry
         | Some db_object \<Rightarrow>
             (let typed =
                    (if row_type db_object = ''BASE TABLE'' then entry\<lparr>info_type := Some ''table''\<rparr>
                     else if row_type db_object = ''VIEW'' then entry\<lparr>info_type := Some ''view''\<rparr>
                     else entry);
                  scanned = scan_columns (row_columns db_object) typed []
              in if snd scanned \<noteq> []
                 then (fst scanned)\<lparr>info_cluster := Some (snd scanned)\<rparr>
                 else fst scanned))"

fun introspect_objects ::
  "(string \<rightharpoonup> object_row) \<Rightarrow> string list \<Rightarrow> (string \<rightharpoonup> db_info) \<Rightarrow> (string \<rightharpoonup> db_info)" where
  "introspect_objects dbo [] m = m"
| "introspect_objects dbo (obj_name # objs) m =
     introspect_objects dbo objs (m(obj_name \<mapsto> introspect_object dbo obj_name))"

text \<open>
  \<^verbatim>\<open>if dataset is None or dataset == "": name = self.dataset
  else: name = dataset\<close>
\<close>

definition query_for :: "string option \<Rightarrow> string option \<Rightarrow> string list \<Rightarrow> catalog_query" where
  "query_for self_dataset dataset objects =
     \<lparr> query_dataset = (if dataset = None \<or> dataset = Some '''' then self_dataset else dataset),
       query_objects = objects \<rparr>"

text \<open>
  The loop \<^verbatim>\<open>for dataset, objects in datasets.items()\<close>. The dictionary is the list of its
  items in iteration order. The first component of the result is the exception that ended
  the loop, if any; the state is returned as the exception left it.
\<close>

fun introspect_datasets ::
  "string option \<Rightarrow> (catalog_query \<Rightarrow> error + object_row list)
     \<Rightarrow> (string option \<times> string list) list \<Rightarrow> istate \<Rightarrow> error option \<times> istate" where
  "introspect_datasets self_dataset read_data [] st = (None, st)"
| "introspect_datasets self_dataset read_data ((dataset, objects) # rest) st =
     (let query = query_for self_dataset dataset objects;
          asked = st\<lparr>issued := issued st @ [query]\<rparr>
      in case read_data query of
           Inl e \<Rightarrow> (Some e, asked)
         | Inr rows \<Rightarrow>
             (let present = (case requested asked dataset of None \<Rightarrow> Map.empty | Some m \<Rightarrow> m);
                  filled = introspect_objects (db_objects rows) objects present
              in introspect_datasets self_dataset read_data rest
                   (asked\<lparr>requested := (requested asked)(dataset \<mapsto> filled)\<rparr>)))"

text \<open>
  \<^verbatim>\<open>def _introspect(self, to_introspect):
      for project, datasets in to_introspect.items():
          if project != "":
              raise ValueError("3 level db objects are not currently supported")
          for dataset, objects in datasets.items(): ...\<close>
\<close>

fun introspect ::
  "string option \<Rightarrow> (catalog_query \<Rightarrow> error + object_row list)
     \<Rightarrow> (string \<times> (string option \<times> string list) list) list \<Rightarrow> istate \<Rightarrow> error option \<times> istate" where
  "introspect self_dataset read_data [] st = (None, st)"
| "introspect self_dataset read_data ((project, datasets) # rest) st =
     (if project \<noteq> '''' then (Some Three_level_objects, st)
      else case introspect_datasets self_dataset read_data datasets st of
             (Some e, st') \<Rightarrow> (Some e, st')
           | (None, st') \<Rightarrow> introspect self_dataset read_data rest st')"

text \<open>A catalog without objects, used where a concrete run is evaluated.\<close>

definition empty_catalog :: "catalog_query \<Rightarrow> error + object_row list" where
  "empty_catalog q = Inr []"

section \<open>The catalog query\<close>

text \<open>
  \<^verbatim>\<open>self.read_data(query)\<close> runs the query of \<^verbatim>\<open>_introspect\<close> against two views of the
  dataset, \<^verbatim>\<open>INFORMATION_SCHEMA.TABLES t\<close> and \<^verbatim>\<open>INFORMATION_SCHEMA.COLUMNS c\<close>. Their rows,
  with the columns the query reads:
\<close>

record table_row =
  t_table_name :: string
  t_table_type :: string

record schema_column =
  c_table_name :: string
  c_column_name :: string
  c_is_partitioning_column :: string
  c_clustering_ordinal_position :: "int option"

record information_schema =
  TABLES :: "table_row list"
  COLUMNS :: "schema_column list"

text \<open>
  What the database holds for a query: the two views the query is run against, or the error
  its job ends with.
\<close>

type_synonym warehouse = "catalog_query \<Rightarrow> error + information_schema"

text \<open>
  \<^verbatim>\<open>STRUCT(c.column_name, c.is_partitioning_column = 'YES' AS is_partition,
         c.clustering_ordinal_position)\<close>
\<close>

definition struct :: "schema_column \<Rightarrow> column_row" where
  "struct c =
     \<lparr> column_name = c_column_name c,
       is_partition = (c_is_partitioning_column c = ''YES''),
       clustering_ordinal_position = c_clustering_ordinal_position c \<rparr>"

text \<open>
  \<^verbatim>\<open>FROM ...TABLES t JOIN ...COLUMNS c ON c.table_name = t.table_name
  WHERE t.table_name IN (<objects>)\<close>
\<close>

definition joined :: "information_schema \<Rightarrow> string list \<Rightarrow> (table_row \<times> schema_column) list" where
  "joined s objects =
     concat (map (\<lambda>t. map (Pair t) (filter (\<lambda>c. c_table_name c = t_table_name t) (COLUMNS s)))
       (filter (\<lambda>t. t_table_name t \<in> set objects) (TABLES s)))"

text \<open>
  \<^verbatim>\<open>SELECT t.table_name AS name, t.table_type AS type,
         array_agg(STRUCT(...) ORDER BY clustering_ordinal_position) AS columns
  ... GROUP BY 1,2\<close>:
  one row for each pair of name and type among the joined rows, with the structs of the group
  in ascending order of the clustering ordinal. BigQuery puts nulls first in an ascending
  order, as the order of \<open>int option\<close> puts \<open>None\<close>; where two ordinals are equal the model
  keeps the order of the view.
\<close>

definition run_query :: "information_schema \<Rightarrow> string list \<Rightarrow> object_row list" where
  "run_query s objects =
     map (\<lambda>(n, ty).
           \<lparr> row_name = n, row_type = ty,
             row_columns =
               sort_key clustering_ordinal_position
                 (map (\<lambda>(t, c). struct c)
                   (filter (\<lambda>(t, c). t_table_name t = n \<and> t_table_type t = ty)
                     (joined s objects))) \<rparr>)
       (remdups (map (\<lambda>(t, c). (t_table_name t, t_table_type t)) (joined s objects)))"

definition bigquery_read_data :: "warehouse \<Rightarrow> catalog_query \<Rightarrow> error + object_row list" where
  "bigquery_read_data wh q =
     (case wh q of Inl e \<Rightarrow> Inl e | Inr s \<Rightarrow> Inr (run_query s (query_objects q)))"

text \<open>
  A dataset with one table, used where a concrete run is evaluated: \<^verbatim>\<open>t\<close> is partitioned by
  \<^verbatim>\<open>ts\<close> and clustered by \<^verbatim>\<open>b\<close>, then \<^verbatim>\<open>a\<close>. The view lists the columns by name, not by
  clustering ordinal.
\<close>

definition sample_schema :: information_schema where
  "sample_schema =
     \<lparr> TABLES = [\<lparr>t_table_name = ''t'', t_table_type = ''BASE TABLE''\<rparr>],
       COLUMNS =
         [\<lparr>c_table_name = ''t'', c_column_name = ''a'', c_is_partitioning_column = ''NO'',
           c_clustering_ordinal_position = Some 2\<rparr>,
          \<lparr>c_table_name = ''t'', c_column_name = ''b'', c_is_partitioning_column = ''NO'',
           c_clustering_ordinal_position = Some 1\<rparr>,
          \<lparr>c_table_name = ''t'', c_column_name = ''id'', c_is_partitioning_column = ''NO'',
           c_clustering_ordinal_position = None\<rparr>,
          \<lparr>c_table_name = ''t'', c_column_name = ''ts'', c_is_partitioning_column = ''YES'',
           c_clustering_ordinal_position = None\<rparr>] \<rparr>"

definition sample_warehouse :: warehouse where
  "sample_warehouse q = Inr sample_schema"

section \<open>Properties of \<^verbatim>\<open>fully_qualify\<close> and \<^verbatim>\<open>feature\<close>\<close>

text \<open>
  Claim C5, as amended. The qualified name is the object name alone only when the schema is
  absent (\<^verbatim>\<open>None\<close>); for every present schema, the empty string included, it is the
  schema, a dot and the object name, with no escaping or quoting.
\<close>

theorem fully_qualify_present_or_absent:
  "fully_qualify name None = name \<and> fully_qualify name (Some s) = s @ ''.'' @ name"
  by (simp add: fully_qualify_def)

text \<open>
  Claim C5 as stated fails for the empty schema: the test is \<^verbatim>\<open>schema is not None\<close>, so the
  empty string is qualified like any other and the result starts with a dot.
\<close>

theorem fully_qualify_empty_schema_counterexample:
  "fully_qualify ''t'' (Some '''') = ''.t'' \<and> fully_qualify ''t'' (Some '''') \<noteq> ''t''"
  by (simp add: fully_qualify_def)

text \<open>
  Claim C6, as amended. \<^verbatim>\<open>feature\<close> is a membership test that always returns: it answers
  true exactly for the three declared names and false, without failing, for every other name.
\<close>

theorem feature_declared_only:
  "feature f = (f = ''CAN REPLACE TABLE'' \<or> f = ''CAN REPLACE VIEW'' \<or> f = ''CANNOT CHANGE SCHEMA'')"
  by (simp add: feature_def declared_features_def)

theorem feature_declared_only_witness:
  "feature ''CANNOT SPECIFY DDL IN SELECT'' = False \<and> feature ''CAN REPLACE VIEW'' = True"
  using feature_declared_only [of "''CANNOT SPECIFY DDL IN SELECT''"]
        feature_declared_only [of "''CAN REPLACE VIEW''"]
  by simp

text \<open>
  Claim C6 as stated fails: \<^verbatim>\<open>NEEDS CASCADE\<close>, which \<^verbatim>\<open>create_table\<close> itself asks for, is not
  declared, and the answer is a plain false.
\<close>

theorem feature_silent_false_counterexample:
  "''NEEDS CASCADE'' \<notin> set declared_features \<and> feature ''NEEDS CASCADE'' = False"
  by (simp add: feature_def declared_features_def)

section \<open>Properties of \<^verbatim>\<open>create_table\<close>\<close>

text \<open>
  Claim C1. When the desired cluster set equals the existing one and the desired partition
  equals the existing partition column (each the empty string when absent), no drop statement
  is emitted: \<^verbatim>\<open>drop\<close> is empty and the script is the rendered create statement alone.
\<close>

theorem create_table_no_drop:
  assumes "des_clustered d = cluster_column ro schema table"
      and "des_partitioned d = partition_column ro schema table"
  shows "drop_stmt ro table schema d = ''''
       \<and> create_table template ro table schema sel rep d
           = template (create_table_args ro table schema sel d)"
  using assms by (simp add: drop_stmt_def create_table_def)

theorem create_table_no_drop_witness:
  "des_clustered \<lparr>ddl_columns = None, ddl_partition = Some ''ts'', ddl_cluster = Some [''b'', ''a''],
        ddl_post_hook = []\<rparr>
     = cluster_column
         (Map.empty(Some ''ds'' \<mapsto> Map.empty(''t'' \<mapsto>
            \<lparr>info_type = Some ''table'', info_partition = Some ''ts'', info_cluster = Some [''a'', ''b'']\<rparr>)))
         (Some ''ds'') ''t''
   \<and> des_partitioned \<lparr>ddl_columns = None, ddl_partition = Some ''ts'', ddl_cluster = Some [''b'', ''a''],
        ddl_post_hook = []\<rparr>
     = partition_column
         (Map.empty(Some ''ds'' \<mapsto> Map.empty(''t'' \<mapsto>
            \<lparr>info_type = Some ''table'', info_partition = Some ''ts'', info_cluster = Some [''a'', ''b'']\<rparr>)))
         (Some ''ds'') ''t''
   \<and> create_table sample_template
         (Map.empty(Some ''ds'' \<mapsto> Map.empty(''t'' \<mapsto>
            \<lparr>info_type = Some ''table'', info_partition = Some ''ts'', info_cluster = Some [''a'', ''b'']\<rparr>)))
         ''t'' (Some ''ds'') None False
         \<lparr>ddl_columns = None, ddl_partition = Some ''ts'', ddl_cluster = Some [''b'', ''a''],
          ddl_post_hook = []\<rparr>
     = ''CREATE OR REPLACE TABLE ds.t''"
proof -
  let ?d = "\<lparr>ddl_columns = None, ddl_partition = Some ''ts'', ddl_cluster = Some [''b'', ''a''],
        ddl_post_hook = []\<rparr>"
  let ?ro = "(Map.empty(Some ''ds'' \<mapsto> Map.empty(''t'' \<mapsto>
            \<lparr>info_type = Some ''table'', info_partition = Some ''ts'', info_cluster = Some [''a'', ''b'']\<rparr>)))"
  have c: "des_clustered ?d = cluster_column ?ro (Some ''ds'') ''t''"
    by (auto simp add: des_clustered_def cluster_column_def lookup_info_def)
  have p: "des_partitioned ?d = partition_column ?ro (Some ''ds'') ''t''"
    by (simp add: des_partitioned_def partition_column_def lookup_info_def)
  from create_table_no_drop [OF c p, of sample_template None False] c p
  show ?thesis
    by (simp add: create_table_args_def sample_template_def fully_qualify_def)
qed

text \<open>The guarded subscripts of the first statement never raise.\<close>

lemma read_db_info_lookup: "read_db_info ro schema table = Inr (lookup_info ro schema table)"
proof (cases "ro schema")
  case None
  then show ?thesis by (simp add: read_db_info_def lookup_info_def)
next
  case (Some objs)
  then show ?thesis
    by (cases "objs table") (simp_all add: read_db_info_def lookup_info_def subscript_def)
qed

text \<open>
  Claim C2. Let \<open>entry\<close> be what the state holds for the table: the entry stored under the
  schema and the table name, or nothing when the name was never introspected. When the desired
  cluster set differs from the cluster list of the entry (empty when absent), or the desired
  partition differs from the partition of the entry (the empty string when absent), the script
  starts with \<^verbatim>\<open>DROP TABLE IF EXISTS <qualified name>\<close> if the type of the entry is
  \<^verbatim>\<open>"table"\<close>, and with \<^verbatim>\<open>DROP VIEW IF EXISTS <qualified name>\<close> in every other case: a view,
  an entry of type \<^verbatim>\<open>None\<close> (an object the catalog did not return) and no entry at all. Each
  drop statement ends with a semicolon and a newline, and the rendered create statement
  follows. The function raises in none of these cases: the lookups of its first statement
  return the entry, and the function returns the script.
\<close>

theorem create_table_drop_kind:
  assumes "(case ro schema of None \<Rightarrow> None | Some objs \<Rightarrow> objs table) = entry"
      and "set (case ddl_cluster d of None \<Rightarrow> [] | Some cs \<Rightarrow> cs)
             \<noteq> set (case entry of
                      None \<Rightarrow> []
                    | Some i \<Rightarrow> (case info_cluster i of None \<Rightarrow> [] | Some cs \<Rightarrow> cs))
           \<or> (case ddl_partition d of None \<Rightarrow> '''' | Some p \<Rightarrow> p)
             \<noteq> (case entry of
                   None \<Rightarrow> ''''
                 | Some i \<Rightarrow> (case info_partition i of None \<Rightarrow> '''' | Some p \<Rightarrow> p))"
  shows "read_db_info ro schema table = Inr entry
       \<and> create_table_result template ro table schema sel rep d
           = Inr (create_table template ro table schema sel rep d)
       \<and> create_table template ro table schema sel rep d =
           (if (case entry of None \<Rightarrow> None | Some i \<Rightarrow> info_type i) = Some ''table''
            then ''DROP TABLE IF EXISTS '' @ fully_qualify table schema @ '';'' @ [nl]
            else ''DROP VIEW IF EXISTS '' @ fully_qualify table schema @ '';'' @ [nl])
           @ template (create_table_args ro table schema sel d)"
proof -
  have look: "lookup_info ro schema table = entry"
    using assms(1) by (simp add: lookup_info_def)
  have c: "cluster_column ro schema table
      = set (case entry of
               None \<Rightarrow> []
             | Some i \<Rightarrow> (case info_cluster i of None \<Rightarrow> [] | Some cs \<Rightarrow> cs))"
    by (simp add: cluster_column_def look split: option.splits)
  have p: "partition_column ro schema table
      = (case entry of
           None \<Rightarrow> ''''
         | Some i \<Rightarrow> (case info_partition i of None \<Rightarrow> '''' | Some p \<Rightarrow> p))"
    by (simp add: partition_column_def look split: option.splits)
  have dc: "des_clustered d = set (case ddl_cluster d of None \<Rightarrow> [] | Some cs \<Rightarrow> cs)"
    by (simp add: des_clustered_def split: option.splits)
  have dp: "des_partitioned d = (case ddl_partition d of None \<Rightarrow> '''' | Some p \<Rightarrow> p)"
    by (simp add: des_partitioned_def split: option.splits)
  have ty: "object_type ro schema table = (case entry of None \<Rightarrow> None | Some i \<Rightarrow> info_type i)"
    by (simp add: object_type_def look)
  from assms(2) have differ: "\<not> (des_clustered d = cluster_column ro schema table
      \<and> des_partitioned d = partition_column ro schema table)"
    unfolding c p dc dp by blast
  have "read_db_info ro schema table = Inr entry"
    by (simp add: read_db_info_lookup look)
  moreover have "create_table_result template ro table schema sel rep d
      = Inr (create_table template ro table schema sel rep d)"
    by (simp add: create_table_result_def read_db_info_lookup)
  moreover from differ have "create_table template ro table schema sel rep d =
           (if (case entry of None \<Rightarrow> None | Some i \<Rightarrow> info_type i) = Some ''table''
            then ''DROP TABLE IF EXISTS '' @ fully_qualify table schema @ '';'' @ [nl]
            else ''DROP VIEW IF EXISTS '' @ fully_qualify table schema @ '';'' @ [nl])
           @ template (create_table_args ro table schema sel d)"
    unfolding create_table_def drop_stmt_def ty by auto
  ultimately show ?thesis by simp
qed

theorem create_table_drop_kind_witness:
  "create_table sample_template
      (Map.empty(Some ''ds'' \<mapsto> Map.empty(''t'' \<mapsto>
         \<lparr>info_type = Some ''table'', info_partition = None, info_cluster = Some [''a'']\<rparr>)))
      ''t'' (Some ''ds'') None False
      \<lparr>ddl_columns = None, ddl_partition = None, ddl_cluster = None, ddl_post_hook = []\<rparr>
     = ''DROP TABLE IF EXISTS ds.t;'' @ [nl] @ ''CREATE OR REPLACE TABLE ds.t''
   \<and> create_table sample_template
      (Map.empty(Some ''ds'' \<mapsto> Map.empty(''t'' \<mapsto>
         \<lparr>info_type = Some ''table'', info_partition = Some ''day'', info_cluster = Some [''a'', ''b'']\<rparr>)))
      ''t'' (Some ''ds'') None False
      \<lparr>ddl_columns = None, ddl_partition = Some ''ts'', ddl_cluster = Some [''b'', ''a''],
       ddl_post_hook = []\<rparr>
     = ''DROP TABLE IF EXISTS ds.t;'' @ [nl] @ ''CREATE OR REPLACE TABLE ds.t''
   \<and> create_table sample_template
      (Map.empty(Some ''ds'' \<mapsto> Map.empty(''v'' \<mapsto>
         \<lparr>info_type = Some ''view'', info_partition = None, info_cluster = None\<rparr>)))
      ''v'' (Some ''ds'') None False
      \<lparr>ddl_columns = None, ddl_partition = None, ddl_cluster = Some [''a''], ddl_post_hook = []\<rparr>
     = ''DROP VIEW IF EXISTS ds.v;'' @ [nl] @ ''CREATE OR REPLACE TABLE ds.v''
   \<and> create_table sample_template
      (Map.empty(Some ''ds'' \<mapsto> Map.empty(''u'' \<mapsto>
         \<lparr>info_type = None, info_partition = None, info_cluster = None\<rparr>)))
      ''u'' (Some ''ds'') None False
      \<lparr>ddl_columns = None, ddl_partition = Some ''ts'', ddl_cluster = None, ddl_post_hook = []\<rparr>
     = ''DROP VIEW IF EXISTS ds.u;'' @ [nl] @ ''CREATE OR REPLACE TABLE ds.u''
   \<and> create_table sample_template Map.empty ''n'' None None False
      \<lparr>ddl_columns = None, ddl_partition = Some ''ts'', ddl_cluster = None, ddl_post_hook = []\<rparr>
     = ''DROP VIEW IF EXISTS n;'' @ [nl] @ ''CREATE OR REPLACE TABLE n''
   \<and> read_db_info
      (Map.empty(Some ''ds'' \<mapsto> Map.empty(''u'' \<mapsto>
         \<lparr>info_type = None, info_partition = None, info_cluster = None\<rparr>)))
      (Some ''ds'') ''u''
     = Inr (Some \<lparr>info_type = None, info_partition = None, info_cluster = None\<rparr>)
   \<and> read_db_info Map.empty None ''n'' = Inr None"
proof -
  let ?e1 = "\<lparr>info_type = Some ''table'', info_partition = None, info_cluster = Some [''a'']\<rparr>"
  let ?d1 = "\<lparr>ddl_columns = None, ddl_partition = None, ddl_cluster = None, ddl_post_hook = []\<rparr>"
  let ?e2 = "\<lparr>info_type = Some ''table'', info_partition = Some ''day'', info_cluster = Some [''a'', ''b'']\<rparr>"
  let ?d2 = "\<lparr>ddl_columns = None, ddl_partition = Some ''ts'', ddl_cluster = Some [''b'', ''a''],
       ddl_post_hook = []\<rparr>"
  let ?e3 = "\<lparr>info_type = Some ''view'', info_partition = None, info_cluster = None\<rparr>"
  let ?d3 = "\<lparr>ddl_columns = None, ddl_partition = None, ddl_cluster = Some [''a''], ddl_post_hook = []\<rparr>"
  let ?e4 = "\<lparr>info_type = None, info_partition = None, info_cluster = None\<rparr>"
  let ?d4 = "\<lparr>ddl_columns = None, ddl_partition = Some ''ts'', ddl_cluster = None, ddl_post_hook = []\<rparr>"
  have c1: "create_table sample_template (Map.empty(Some ''ds'' \<mapsto> Map.empty(''t'' \<mapsto> ?e1)))
      ''t'' (Some ''ds'') None False ?d1
      = ''DROP TABLE IF EXISTS ds.t;'' @ [nl] @ ''CREATE OR REPLACE TABLE ds.t''"
    using create_table_drop_kind [where ro = "Map.empty(Some ''ds'' \<mapsto> Map.empty(''t'' \<mapsto> ?e1))" and schema = "Some ''ds''"
        and table = "''t''" and entry = "Some ?e1" and d = "?d1" and template = sample_template
        and sel = None and rep = False]
    by (simp add: create_table_args_def sample_template_def fully_qualify_def)
  have c2: "create_table sample_template (Map.empty(Some ''ds'' \<mapsto> Map.empty(''t'' \<mapsto> ?e2)))
      ''t'' (Some ''ds'') None False ?d2
      = ''DROP TABLE IF EXISTS ds.t;'' @ [nl] @ ''CREATE OR REPLACE TABLE ds.t''"
    using create_table_drop_kind [where ro = "Map.empty(Some ''ds'' \<mapsto> Map.empty(''t'' \<mapsto> ?e2))" and schema = "Some ''ds''"
        and table = "''t''" and entry = "Some ?e2" and d = "?d2" and template = sample_template
        and sel = None and rep = False]
    by (simp add: create_table_args_def sample_template_def fully_qualify_def)
  have c3: "create_table sample_template (Map.empty(Some ''ds'' \<mapsto> Map.empty(''v'' \<mapsto> ?e3)))
      ''v'' (Some ''ds'') None False ?d3
      = ''DROP VIEW IF EXISTS ds.v;'' @ [nl] @ ''CREATE OR REPLACE TABLE ds.v''"
    using create_table_drop_kind [where ro = "Map.empty(Some ''ds'' \<mapsto> Map.empty(''v'' \<mapsto> ?e3))" and schema = "Some ''ds''"
        and table = "''v''" and entry = "Some ?e3" and d = "?d3" and template = sample_template
        and sel = None and rep = False]
    by (simp add: create_table_args_def sample_template_def fully_qualify_def)
  have c4: "create_table sample_template (Map.empty(Some ''ds'' \<mapsto> Map.empty(''u'' \<mapsto> ?e4)))
      ''u'' (Some ''ds'') None False ?d4
      = ''DROP VIEW IF EXISTS ds.u;'' @ [nl] @ ''CREATE OR REPLACE TABLE ds.u''"
    and r4: "read_db_info (Map.empty(Some ''ds'' \<mapsto> Map.empty(''u'' \<mapsto> ?e4))) (Some ''ds'') ''u''
      = Inr (Some ?e4)"
    using create_table_drop_kind [where ro = "Map.empty(Some ''ds'' \<mapsto> Map.empty(''u'' \<mapsto> ?e4))" and schema = "Some ''ds''"
        and table = "''u''" and entry = "Some ?e4" and d = "?d4" and template = sample_template
        and sel = None and rep = False]
    by (simp_all add: create_table_args_def sample_template_def fully_qualify_def)
  have c5: "create_table sample_template Map.empty ''n'' None None False ?d4
      = ''DROP VIEW IF EXISTS n;'' @ [nl] @ ''CREATE OR REPLACE TABLE n''"
    and r5: "read_db_info Map.empty None ''n'' = Inr None"
    using create_table_drop_kind [where ro = "Map.empty" and schema = None
        and table = "''n''" and entry = None and d = "?d4" and template = sample_template
        and sel = None and rep = False]
    by (simp_all add: create_table_args_def sample_template_def fully_qualify_def)
  from c1 c2 c3 c4 c5 r4 r5 show ?thesis by simp
qed



text \<open>
  \<^verbatim>\<open>move_table\<close> joins the script of \<^verbatim>\<open>create_table\<close> and the drop of the source table with a
  blank line of its own; there the drop comes last.
\<close>

lemma move_table_script:
  "move_table template ro src_table dst_table src_schema dst_schema d
     = create_table template ro dst_table dst_schema
         (Some (''SELECT * FROM '' @ fully_qualify src_table src_schema)) True d
       @ [nl, nl] @ ''DROP TABLE '' @ fully_qualify src_table src_schema"
  by (simp add: move_table_def fully_qualify_def Let_def)

text \<open>
  Claim C10. The script does not depend on the argument \<^verbatim>\<open>replace\<close>: the call with
  \<^verbatim>\<open>replace=False\<close> returns what the call with \<^verbatim>\<open>replace=True\<close> returns, and the renderer is
  always handed \<^verbatim>\<open>replace=True\<close>.
\<close>

theorem create_table_replace_ignored:
  "create_table template ro table schema sel False d
     = create_table template ro table schema sel True d
   \<and> replace (create_table_args ro table schema sel d) = True"
  by (simp add: create_table_def create_table_args_def)

section \<open>Properties of the validators\<close>

text \<open>
  \<open>Counter\<close> keeps one item for each distinct element, with the number of its occurrences.
\<close>

lemma map_of_counter_add:
  "map_of (counter_add k kvs) = (map_of kvs)(k \<mapsto> (case map_of kvs k of None \<Rightarrow> 1 | Some n \<Rightarrow> Suc n))"
  by (induction kvs) (auto simp: fun_eq_iff)

lemma keys_counter_add: "fst ` set (counter_add k kvs) = insert k (fst ` set kvs)"
proof (induction kvs)
  case Nil
  then show ?case by simp
next
  case (Cons kv kvs)
  obtain k' n where kv: "kv = (k', n)" by (cases kv)
  show ?case
  proof (cases "k = k'")
    case True
    then show ?thesis by (auto simp: kv)
  next
    case False
    then show ?thesis using Cons.IH by (simp add: kv insert_commute)
  qed
qed

lemma distinct_counter_add:
  "distinct (map fst kvs) \<Longrightarrow> distinct (map fst (counter_add k kvs))"
  by (induction kvs) (auto simp: keys_counter_add)

lemma distinct_counter_fold:
  "distinct (map fst acc) \<Longrightarrow> distinct (map fst (foldl (\<lambda>acc k. counter_add k acc) acc xs))"
  by (induction xs arbitrary: acc) (auto simp: distinct_counter_add)

lemma map_of_counter_add_at:
  "map_of (counter_add x acc) k =
     (if k = x then Some (case map_of acc x of None \<Rightarrow> 1 | Some n \<Rightarrow> Suc n)
      else map_of acc k)"
  by (simp add: map_of_counter_add)

lemma map_of_counter_fold:
  "map_of (foldl (\<lambda>acc k. counter_add k acc) acc xs) k =
     (case map_of acc k of
        None \<Rightarrow> (if k \<in> set xs then Some (count_list xs k) else None)
      | Some n \<Rightarrow> Some (n + count_list xs k))"
proof (induction xs arbitrary: acc)
  case Nil
  then show ?case by (cases "map_of acc k") simp_all
next
  case (Cons x xs)
  have unfold: "foldl (\<lambda>acc k. counter_add k acc) acc (x # xs)
      = foldl (\<lambda>acc k. counter_add k acc) (counter_add x acc) xs"
    by simp
  note ih = Cons.IH [of "counter_add x acc"]
  show ?case
  proof (cases "k = x")
    case True
    show ?thesis
    proof (cases "map_of acc x")
      case None
      then show ?thesis
        unfolding unfold ih map_of_counter_add_at using True by simp
    next
      case (Some n)
      then show ?thesis
        unfolding unfold ih map_of_counter_add_at using True by simp
    qed
  next
    case False
    then show ?thesis
      unfolding unfold ih map_of_counter_add_at by (cases "map_of acc k") simp_all
  qed
qed

lemma map_of_Counter:
  "map_of (Counter xs) k = (if k \<in> set xs then Some (count_list xs k) else None)"
  by (simp add: Counter_def map_of_counter_fold)

lemma distinct_Counter: "distinct (map fst (Counter xs))"
  by (simp add: Counter_def distinct_counter_fold)

lemma Counter_items: "(k, n) \<in> set (Counter xs) \<longleftrightarrow> k \<in> set xs \<and> n = count_list xs k"
proof -
  have "((k, n) \<in> set (Counter xs)) = (map_of (Counter xs) k = Some n)"
    by (rule map_of_eq_Some_iff [symmetric]) (rule distinct_Counter)
  also have "\<dots> = (k \<in> set xs \<and> n = count_list xs k)"
    unfolding map_of_Counter by auto
  finally show ?thesis .
qed

lemma dupes_eq: "dupes v = {k \<in> set (map col_name v). 1 < count_list (map col_name v) k}"
  unfolding dupes_def by (auto simp: Counter_items image_iff)

lemma not_distinct_count: "\<not> distinct xs \<longleftrightarrow> (\<exists>k \<in> set xs. 1 < count_list xs k)"
  by (induction xs) (auto simp: count_list_0_iff)


lemma dupes_empty_iff: "dupes v = {} \<longleftrightarrow> distinct (map col_name v)"
  unfolding dupes_eq using not_distinct_count [of "map col_name v"] by auto

lemma finite_dupes: "finite (dupes v)"
  by (simp add: dupes_def)

text \<open>
  Claim C7. When a column name repeats (names are compared exactly, as strings),
  \<^verbatim>\<open>columns_unique\<close> fails with one error that carries the set of all repeated names: the
  names occurring more than once in the list, which is not empty. When no name repeats, the
  list is returned. For the columns a, a, b, b, c the set is exactly a and b.
\<close>

theorem columns_unique_reports_all:
  "(\<not> distinct (map col_name v) \<longrightarrow>
      columns_unique v = Inl (Duplicate_columns (dupes v))
      \<and> dupes v = {k \<in> set (map col_name v). 1 < count_list (map col_name v) k}
      \<and> dupes v \<noteq> {})
   \<and> (distinct (map col_name v) \<longrightarrow> columns_unique v = Inr v)"
  using dupes_empty_iff [of v] finite_dupes [of v]
  by (auto simp: columns_unique_def dupes_eq card_gt_0_iff)

theorem columns_unique_reports_all_witness:
  "\<not> distinct (map col_name (transform_str_cols [Str ''a'', Str ''a'', Str ''b'', Str ''b'', Str ''c'']))
   \<and> columns_unique (transform_str_cols [Str ''a'', Str ''a'', Str ''b'', Str ''b'', Str ''c''])
       = Inl (Duplicate_columns {''a'', ''b''})"
proof -
  let ?v = "transform_str_cols [Str ''a'', Str ''a'', Str ''b'', Str ''b'', Str ''c'']"
  have names: "map col_name ?v = [''a'', ''a'', ''b'', ''b'', ''c'']"
    by (simp add: transform_str_cols_def)
  have nd: "\<not> distinct (map col_name ?v)"
    unfolding names by simp
  have d: "{k \<in> set (map col_name ?v). 1 < count_list (map col_name ?v) k} = {''a'', ''b''}"
    unfolding names by auto
  from columns_unique_reports_all [of ?v] nd d show ?thesis
    by simp
qed

text \<open>
  \<^verbatim>\<open>set(v)\<close> on a \<^verbatim>\<open>Properties\<close> object with a cluster list hashes the pair
  \<^verbatim>\<open>("cluster", [...])\<close> and fails; so the validator fails this way whenever a cluster is
  declared and the table declares a column, whether or not the cluster columns are declared.
\<close>

lemma py_set_iter_properties:
  "prop_cluster p = Some cl \<Longrightarrow> py_set (iter_properties p) = Inl Unhashable_list"
  by (simp add: py_set_def iter_properties_def)

lemma validate_properties_cluster_fails:
  assumes "prop_cluster p = Some cl" and "cols \<noteq> []"
  shows "validate_properties (Some p) (Some cols) = Inl Unhashable_list"
  using assms by (simp add: validate_properties_def py_set_iter_properties)

text \<open>
  Claim C4 at its own example: columns x and y with cluster x and z. The validator does
  fail, but with the \<^verbatim>\<open>TypeError\<close> of \<^verbatim>\<open>set(v)\<close>, not with the error that reports the
  missing set with z.
\<close>

theorem validate_properties_cluster_example:
  "validate_properties
     (Some \<lparr>prop_partition = None, prop_cluster = Some [''x'', ''z'']\<rparr>)
     (Some (transform_str_cols [Str ''x'', Str ''y'']))
   = Inl Unhashable_list
   \<and> validate_properties
     (Some \<lparr>prop_partition = None, prop_cluster = Some [''x'', ''z'']\<rparr>)
     (Some (transform_str_cols [Str ''x'', Str ''y'']))
   \<noteq> Inl (Cluster_not_in_ddl {PStr ''z''})"
  by (simp add: validate_properties_def py_set_def iter_properties_def transform_str_cols_def)

text \<open>The same failure meets a cluster whose columns are all declared.\<close>

lemma validate_properties_rejects_declared_cluster:
  "validate_properties
     (Some \<lparr>prop_partition = None, prop_cluster = Some [''x'']\<rparr>)
     (Some (transform_str_cols [Str ''x'', Str ''y'']))
   = Inl Unhashable_list"
  by (simp add: validate_properties_def py_set_def iter_properties_def transform_str_cols_def)

section \<open>Properties of \<^verbatim>\<open>_introspect\<close>\<close>

text \<open>
  The loop over the columns appends the names of the columns with a clustering ordinal, in the
  order of the array, and touches neither the type nor the key \<^verbatim>\<open>cluster\<close> of the entry.
\<close>

lemma scan_columns_cluster:
  "snd (scan_columns cs entry cl)
     = cl @ map column_name (filter (\<lambda>c. clustering_ordinal_position c \<noteq> None) cs)"
  by (induction cs arbitrary: entry cl) simp_all

lemma scan_columns_type: "info_type (fst (scan_columns cs entry cl)) = info_type entry"
  by (induction cs arbitrary: entry cl) simp_all

lemma scan_columns_keeps_cluster:
  "info_cluster (fst (scan_columns cs entry cl)) = info_cluster entry"
  by (induction cs arbitrary: entry cl) simp_all

lemma scan_columns_no_partition:
  "filter is_partition cs = [] \<Longrightarrow>
     info_partition (fst (scan_columns cs entry cl)) = info_partition entry"
  by (induction cs arbitrary: entry cl) (simp_all split: if_splits)

lemma introspect_object_absent:
  "dbo obj_name = None \<Longrightarrow>
     introspect_object dbo obj_name = \<lparr>info_type = None, info_partition = None, info_cluster = None\<rparr>"
  by (simp add: introspect_object_def)

lemma introspect_object_cluster:
  assumes "dbo obj_name = Some r"
  shows "(case info_cluster (introspect_object dbo obj_name) of None \<Rightarrow> [] | Some cs \<Rightarrow> cs)
           = map column_name (filter (\<lambda>c. clustering_ordinal_position c \<noteq> None) (row_columns r))"
  using assms
  by (simp add: introspect_object_def Let_def scan_columns_cluster scan_columns_keeps_cluster)

text \<open>
  After the loop over \<^verbatim>\<open>objects\<close> every requested name holds its fresh entry; the loop over
  the datasets leaves the datasets it does not visit as they were.
\<close>

lemma introspect_objects_lookup:
  "introspect_objects dbo objs m k
     = (if k \<in> set objs then Some (introspect_object dbo k) else m k)"
  by (induction objs arbitrary: m) simp_all

lemma introspect_datasets_frame:
  "introspect_datasets sd rd ds st = (r, st') \<Longrightarrow> k \<notin> fst ` set ds \<Longrightarrow>
     requested st' k = requested st k"
proof (induction ds arbitrary: st)
  case Nil
  then show ?case by simp
next
  case (Cons a ds)
  obtain d os where a: "a = (d, os)" by (cases a)
  from Cons.prems(2) have kd: "k \<noteq> d" and krest: "k \<notin> fst ` set ds"
    by (auto simp: a)
  show ?case
  proof (cases "rd (query_for sd d os)")
    case (Inl e)
    with Cons.prems(1) show ?thesis by (auto simp: a Let_def)
  next
    case (Inr rows)
    with Cons.prems(1) a obtain st2 where
      rec: "introspect_datasets sd rd ds st2 = (r, st')" and
      st2: "requested st2 k = requested st k"
      using kd by (auto simp: Let_def)
    from Cons.IH [OF rec krest] st2 show ?thesis by simp
  qed
qed

lemma introspect_datasets_entry:
  assumes "introspect_datasets sd rd ds st = (None, st')"
      and "distinct (map fst ds)"
      and "(dataset, objects) \<in> set ds"
      and "obj_name \<in> set objects"
  shows "\<exists>rows m. rd (query_for sd dataset objects) = Inr rows
           \<and> requested st' dataset = Some m
           \<and> m obj_name = Some (introspect_object (db_objects rows) obj_name)"
  using assms
proof (induction ds arbitrary: st)
  case Nil
  then show ?case by simp
next
  case (Cons a ds)
  obtain d os where a: "a = (d, os)" by (cases a)
  show ?case
  proof (cases "rd (query_for sd d os)")
    case (Inl e)
    with Cons.prems(1) show ?thesis by (simp add: a Let_def)
  next
    case (Inr rows)
    define filled where "filled = introspect_objects (db_objects rows) os
        (case requested st d of None \<Rightarrow> Map.empty | Some m \<Rightarrow> m)"
    define st2 where "st2 = st\<lparr>issued := issued st @ [query_for sd d os],
        requested := (requested st)(d \<mapsto> filled)\<rparr>"
    from Cons.prems(1) Inr have rec: "introspect_datasets sd rd ds st2 = (None, st')"
      by (simp add: a Let_def st2_def filled_def)
    show ?thesis
    proof (cases "(dataset, objects) = (d, os)")
      case True
      from Cons.prems(2) have "d \<notin> fst ` set ds" by (simp add: a)
      from introspect_datasets_frame [OF rec this]
      have "requested st' d = Some filled" by (simp add: st2_def)
      moreover from Cons.prems(4) True
      have "filled obj_name = Some (introspect_object (db_objects rows) obj_name)"
        by (simp add: filled_def introspect_objects_lookup)
      ultimately show ?thesis using True Inr by auto
    next
      case False
      with Cons.prems(3) have mem: "(dataset, objects) \<in> set ds" by (auto simp: a)
      from Cons.prems(2) have dis: "distinct (map fst ds)" by simp
      from Cons.IH [OF rec dis mem Cons.prems(4)] show ?thesis .
    qed
  qed
qed

text \<open>
  The outer loop runs its items in order and stops at the first exception; a run that ends
  without one has met no project key but the empty string.
\<close>

lemma introspect_append:
  "introspect sd rd (xs @ ys) st =
     (case introspect sd rd xs st of
        (None, st') \<Rightarrow> introspect sd rd ys st'
      | (Some e, st') \<Rightarrow> (Some e, st'))"
proof (induction xs arbitrary: st)
  case Nil
  then show ?case by simp
next
  case (Cons a xs)
  obtain p ds where a: "a = (p, ds)" by (cases a)
  show ?case
  proof (cases "p = ''''")
    case False
    then show ?thesis by (simp add: a)
  next
    case True
    obtain r st1 where d: "introspect_datasets sd rd ds st = (r, st1)"
      by (cases "introspect_datasets sd rd ds st")
    show ?thesis
      by (cases r) (simp_all add: a True d Cons.IH)
  qed
qed

lemma introspect_success_single:
  assumes "introspect sd rd to_introspect st = (None, st')"
      and "distinct (map fst to_introspect)"
      and "(project, datasets) \<in> set to_introspect"
  shows "project = '''' \<and> introspect_datasets sd rd datasets st = (None, st')"
proof (cases to_introspect)
  case Nil
  with assms(3) show ?thesis by simp
next
  case (Cons a rest)
  obtain p ds where a: "a = (p, ds)" by (cases a)
  from assms(1) have p: "p = ''''"
    by (auto simp: Cons a split: if_splits)
  from assms(1) p obtain st1 where
    d: "introspect_datasets sd rd ds st = (None, st1)" and
    r: "introspect sd rd rest st1 = (None, st')"
    by (auto simp: Cons a split: prod.splits option.splits)
  have "rest = []"
  proof (cases rest)
    case Nil
    then show ?thesis .
  next
    case (Cons b rest')
    obtain q es where b: "b = (q, es)" by (cases b)
    from assms(2) have "q \<noteq> p"
      using \<open>to_introspect = a # rest\<close> by (auto simp: Cons a b)
    with p r show ?thesis by (simp add: Cons b)
  qed
  with r have "st1 = st'" by simp
  with assms(3) d p show ?thesis
    using \<open>rest = []\<close> by (simp add: Cons a)
qed

text \<open>
  The rows of the catalog query: the array of a row is in ascending order of the clustering
  ordinal and holds the structs of exactly the columns of the table; the dictionary
  \<^verbatim>\<open>db_objects\<close> holds a row under its own name, and holds none for a requested name without a
  table or without a column in the two views.
\<close>

lemma struct_ordinal [simp]:
  "clustering_ordinal_position (struct c) = c_clustering_ordinal_position c"
  by (simp add: struct_def)

lemma run_query_sorted:
  "r \<in> set (run_query s objects) \<Longrightarrow> sorted (map clustering_ordinal_position (row_columns r))"
  by (auto simp: run_query_def)

lemma run_query_columns:
  assumes "r \<in> set (run_query s objects)"
  shows "set (row_columns r) = struct ` {c \<in> set (COLUMNS s). c_table_name c = row_name r}"
proof -
  from assms have "r \<in> (\<lambda>(n, ty). \<lparr> row_name = n, row_type = ty,
             row_columns =
               sort_key clustering_ordinal_position
                 (map (\<lambda>(t, c). struct c)
                   (filter (\<lambda>(t, c). t_table_name t = n \<and> t_table_type t = ty)
                     (joined s objects))) \<rparr>)
       ` set (map (\<lambda>(t, c). (t_table_name t, t_table_type t)) (joined s objects))"
    by (simp add: run_query_def)
  then obtain key where
    key: "key \<in> set (map (\<lambda>(t, c). (t_table_name t, t_table_type t)) (joined s objects))" and
    rk: "r = (\<lambda>(n, ty). \<lparr> row_name = n, row_type = ty,
             row_columns =
               sort_key clustering_ordinal_position
                 (map (\<lambda>(t, c). struct c)
                   (filter (\<lambda>(t, c). t_table_name t = n \<and> t_table_type t = ty)
                     (joined s objects))) \<rparr>) key"
    by blast
  obtain n ty where nty: "key = (n, ty)" by (cases key)
  from rk have r: "r = \<lparr> row_name = n, row_type = ty,
             row_columns =
               sort_key clustering_ordinal_position
                 (map (\<lambda>(t, c). struct c)
                   (filter (\<lambda>(t, c). t_table_name t = n \<and> t_table_type t = ty)
                     (joined s objects))) \<rparr>"
    by (simp add: nty)
  from key obtain t c0 where
    tc: "(t, c0) \<in> set (joined s objects)" "t_table_name t = n" "t_table_type t = ty"
    by (auto simp: nty)
  then have t: "t \<in> set (TABLES s)" "t_table_name t \<in> set objects"
    by (auto simp: joined_def)
  have "set (row_columns r)
      = (\<lambda>(t, c). struct c) ` {(t, c). (t, c) \<in> set (joined s objects)
            \<and> t_table_name t = n \<and> t_table_type t = ty}"
    by (auto simp: r)
  also have "\<dots> = struct ` {c \<in> set (COLUMNS s). c_table_name c = n}"
  proof (rule set_eqI, rule iffI)
    fix x
    assume "x \<in> (\<lambda>(t, c). struct c) ` {(t, c). (t, c) \<in> set (joined s objects)
            \<and> t_table_name t = n \<and> t_table_type t = ty}"
    then show "x \<in> struct ` {c \<in> set (COLUMNS s). c_table_name c = n}"
      by (auto simp: joined_def)
  next
    fix x
    assume "x \<in> struct ` {c \<in> set (COLUMNS s). c_table_name c = n}"
    then obtain c where c: "c \<in> set (COLUMNS s)" "c_table_name c = n" "x = struct c"
      by auto
    with t tc have "(t, c) \<in> set (joined s objects)"
      by (auto simp: joined_def)
    with tc c show "x \<in> (\<lambda>(t, c). struct c) ` {(t, c). (t, c) \<in> set (joined s objects)
            \<and> t_table_name t = n \<and> t_table_type t = ty}"
      by force
  qed
  finally show ?thesis by (simp add: r)
qed

lemma run_query_clustered:
  assumes "r \<in> set (run_query s objects)"
  shows "set (filter (\<lambda>c. clustering_ordinal_position c \<noteq> None) (row_columns r))
           = struct ` {c \<in> set (COLUMNS s).
                c_table_name c = row_name r \<and> c_clustering_ordinal_position c \<noteq> None}"
proof -
  have "set (filter (\<lambda>c. clustering_ordinal_position c \<noteq> None) (row_columns r))
      = {x \<in> struct ` {c \<in> set (COLUMNS s). c_table_name c = row_name r}.
           clustering_ordinal_position x \<noteq> None}"
    by (simp add: run_query_columns [OF assms])
  also have "\<dots> = struct ` {c \<in> set (COLUMNS s).
      c_table_name c = row_name r \<and> c_clustering_ordinal_position c \<noteq> None}"
    by auto
  finally show ?thesis .
qed

lemma bigquery_read_data_rows:
  "bigquery_read_data wh q = Inr rows \<Longrightarrow> \<exists>s. wh q = Inr s \<and> rows = run_query s (query_objects q)"
  by (cases "wh q") (auto simp: bigquery_read_data_def)

lemma db_objects_fold_Some:
  "foldl (\<lambda>m r. m(row_name r \<mapsto> r)) m rows k = Some r \<Longrightarrow>
     m k = Some r \<or> (r \<in> set rows \<and> row_name r = k)"
proof (induction rows arbitrary: m)
  case Nil
  then show ?case by simp
next
  case (Cons a rows)
  from Cons.prems have "foldl (\<lambda>m r. m(row_name r \<mapsto> r)) (m(row_name a \<mapsto> a)) rows k = Some r"
    by (simp only: foldl_Cons)
  from Cons.IH [OF this]
  have "(m(row_name a \<mapsto> a)) k = Some r \<or> (r \<in> set rows \<and> row_name r = k)" .
  then show ?case
    by (cases "k = row_name a") auto
qed

lemma db_objects_Some: "db_objects rows k = Some r \<Longrightarrow> r \<in> set rows \<and> row_name r = k"
  using db_objects_fold_Some [of Map.empty rows k r] by (simp add: db_objects_def)

lemma db_objects_fold_None:
  "foldl (\<lambda>m r. m(row_name r \<mapsto> r)) m rows k = None \<longleftrightarrow>
     m k = None \<and> k \<notin> row_name ` set rows"
proof (induction rows arbitrary: m)
  case Nil
  then show ?case by simp
next
  case (Cons a rows)
  have step: "foldl (\<lambda>m r. m(row_name r \<mapsto> r)) m (a # rows) k
      = foldl (\<lambda>m r. m(row_name r \<mapsto> r)) (m(row_name a \<mapsto> a)) rows k"
    by (simp only: foldl_Cons)
  show ?case
    unfolding step Cons.IH by (cases "k = row_name a") auto
qed

lemma db_objects_None: "db_objects rows k = None \<longleftrightarrow> k \<notin> row_name ` set rows"
  by (simp add: db_objects_def db_objects_fold_None)

lemma run_query_names:
  "row_name ` set (run_query s objects)
     = {n \<in> set objects. \<exists>t \<in> set (TABLES s). \<exists>c \<in> set (COLUMNS s).
          t_table_name t = n \<and> c_table_name c = n}"
  by (auto simp: run_query_def joined_def image_iff) force+

text \<open>
  Claim C8. After an introspection that returns, every requested object name is a key of the
  state under its dataset key, whether or not the catalog query returned the object. An object
  the query did not return is recorded with type \<^verbatim>\<open>None\<close>, no partition and no cluster. For an
  object the query returned, the cluster list is the names of exactly the columns of the
  object whose clustering ordinal is not null, in ascending order of the ordinal: the order of
  the query's \<^verbatim>\<open>ORDER BY clustering_ordinal_position\<close>, which the loop over the columns keeps.
  The items of a dictionary have distinct keys, which the two \<open>distinct\<close> premises say of the
  two lists of items.
\<close>

theorem introspect_records_requested:
  assumes "introspect self_dataset (bigquery_read_data warehouse) to_introspect st = (None, st')"
      and "distinct (map fst to_introspect)"
      and "(project, datasets) \<in> set to_introspect"
      and "distinct (map fst datasets)"
      and "(dataset, objects) \<in> set datasets"
      and "obj_name \<in> set objects"
  shows "\<exists>s rows entry.
           warehouse (query_for self_dataset dataset objects) = Inr s
         \<and> rows = run_query s objects
         \<and> lookup_info (requested st') dataset obj_name = Some entry
         \<and> entry = introspect_object (db_objects rows) obj_name
         \<and> (case db_objects rows obj_name of
               None \<Rightarrow>
                 entry = \<lparr>info_type = None, info_partition = None, info_cluster = None\<rparr>
             | Some r \<Rightarrow>
                 (case info_cluster entry of None \<Rightarrow> [] | Some cs \<Rightarrow> cs)
                   = map column_name
                       (filter (\<lambda>c. clustering_ordinal_position c \<noteq> None) (row_columns r))
                 \<and> sorted (map clustering_ordinal_position
                      (filter (\<lambda>c. clustering_ordinal_position c \<noteq> None) (row_columns r)))
                 \<and> set (filter (\<lambda>c. clustering_ordinal_position c \<noteq> None) (row_columns r))
                     = struct ` {c \<in> set (COLUMNS s).
                         c_table_name c = obj_name \<and> c_clustering_ordinal_position c \<noteq> None})"
proof -
  from introspect_success_single [OF assms(1) assms(2) assms(3)]
  have run: "introspect_datasets self_dataset (bigquery_read_data warehouse) datasets st = (None, st')"
    by simp
  from introspect_datasets_entry [OF run assms(4) assms(5) assms(6)]
  obtain rows m where
    rows: "bigquery_read_data warehouse (query_for self_dataset dataset objects) = Inr rows" and
    m: "requested st' dataset = Some m" and
    e: "m obj_name = Some (introspect_object (db_objects rows) obj_name)"
    by blast
  from bigquery_read_data_rows [OF rows] obtain s where
    s: "warehouse (query_for self_dataset dataset objects) = Inr s" and
    q: "rows = run_query s objects"
    by (auto simp: query_for_def)
  have look: "lookup_info (requested st') dataset obj_name
      = Some (introspect_object (db_objects rows) obj_name)"
    by (simp add: lookup_info_def m e)
  have shape: "case db_objects rows obj_name of
       None \<Rightarrow>
         introspect_object (db_objects rows) obj_name
           = \<lparr>info_type = None, info_partition = None, info_cluster = None\<rparr>
     | Some r \<Rightarrow>
         (case info_cluster (introspect_object (db_objects rows) obj_name) of
            None \<Rightarrow> [] | Some cs \<Rightarrow> cs)
           = map column_name
               (filter (\<lambda>c. clustering_ordinal_position c \<noteq> None) (row_columns r))
         \<and> sorted (map clustering_ordinal_position
              (filter (\<lambda>c. clustering_ordinal_position c \<noteq> None) (row_columns r)))
         \<and> set (filter (\<lambda>c. clustering_ordinal_position c \<noteq> None) (row_columns r))
             = struct ` {c \<in> set (COLUMNS s).
                 c_table_name c = obj_name \<and> c_clustering_ordinal_position c \<noteq> None}"
  proof (cases "db_objects rows obj_name")
    case None
    then show ?thesis by (simp add: introspect_object_absent)
  next
    case (Some r)
    from db_objects_Some [OF Some] q
    have mem: "r \<in> set (run_query s objects)" and name: "row_name r = obj_name"
      by simp_all
    have "sorted (map clustering_ordinal_position
        (filter (\<lambda>c. clustering_ordinal_position c \<noteq> None) (row_columns r)))"
      using run_query_sorted [OF mem] by (rule sorted_filter)
    moreover note run_query_clustered [OF mem]
    moreover note introspect_object_cluster [of "db_objects rows" obj_name r, OF Some]
    ultimately show ?thesis
      by (simp add: Some name)
  qed
  from s q look shape show ?thesis by blast
qed

theorem introspect_records_requested_witness:
  "fst (introspect (Some ''ds'') (bigquery_read_data sample_warehouse)
          [('''', [(None, [''t'', ''gone''])])]
          \<lparr>requested = Map.empty, issued = []\<rparr>) = None
   \<and> lookup_info
        (requested (snd (introspect (Some ''ds'') (bigquery_read_data sample_warehouse)
          [('''', [(None, [''t'', ''gone''])])]
          \<lparr>requested = Map.empty, issued = []\<rparr>))) None ''t''
       = Some \<lparr>info_type = Some ''table'', info_partition = Some ''ts'',
               info_cluster = Some [''b'', ''a'']\<rparr>
   \<and> lookup_info
        (requested (snd (introspect (Some ''ds'') (bigquery_read_data sample_warehouse)
          [('''', [(None, [''t'', ''gone''])])]
          \<lparr>requested = Map.empty, issued = []\<rparr>))) None ''gone''
       = Some \<lparr>info_type = None, info_partition = None, info_cluster = None\<rparr>"
proof -
  let ?req = "[('''', [(None, [''t'', ''gone''])])]"
  let ?st = "\<lparr>requested = Map.empty, issued = []\<rparr>"
  let ?row = "\<lparr>row_name = ''t'', row_type = ''BASE TABLE'',
      row_columns =
        [\<lparr>column_name = ''id'', is_partition = False, clustering_ordinal_position = None\<rparr>,
         \<lparr>column_name = ''ts'', is_partition = True, clustering_ordinal_position = None\<rparr>,
         \<lparr>column_name = ''b'', is_partition = False, clustering_ordinal_position = Some 1\<rparr>,
         \<lparr>column_name = ''a'', is_partition = False, clustering_ordinal_position = Some 2\<rparr>]\<rparr>"
  have rows: "run_query sample_schema [''t'', ''gone''] = [?row]"
    by (simp add: run_query_def joined_def sample_schema_def struct_def)
  have wh: "sample_warehouse (query_for (Some ''ds'') None [''t'', ''gone'']) = Inr sample_schema"
    by (simp add: sample_warehouse_def)
  have rd: "bigquery_read_data sample_warehouse (query_for (Some ''ds'') None [''t'', ''gone''])
      = Inr [?row]"
    by (simp add: bigquery_read_data_def sample_warehouse_def rows query_for_def)
  obtain st' where run:
    "introspect (Some ''ds'') (bigquery_read_data sample_warehouse) ?req ?st = (None, st')"
    by (simp add: Let_def rd)
  have dbo_t: "db_objects [?row] ''t'' = Some ?row"
    and dbo_gone: "db_objects [?row] ''gone'' = None"
    by (simp_all add: db_objects_def)
  have entry_t: "introspect_object (db_objects [?row]) ''t''
      = \<lparr>info_type = Some ''table'', info_partition = Some ''ts'', info_cluster = Some [''b'', ''a'']\<rparr>"
    by (simp add: introspect_object_def dbo_t)
  have k1: "distinct (map fst ?req)" and k2: "('''', [(None, [''t'', ''gone''])]) \<in> set ?req"
    and k3: "distinct (map fst [(None :: string option, [''t'', ''gone''])])"
    and k4: "(None, [''t'', ''gone'']) \<in> set [(None :: string option, [''t'', ''gone''])]"
    by simp_all
  have o1: "''t'' \<in> set [''t'', ''gone'']" and o2: "''gone'' \<in> set [''t'', ''gone'']"
    by simp_all
  from introspect_records_requested [OF run k1 k2 k3 k4 o1]
  have t: "lookup_info (requested st') None ''t''
      = Some (introspect_object (db_objects [?row]) ''t'')"
    by (auto simp: wh rows)
  from introspect_records_requested [OF run k1 k2 k3 k4 o2]
  have g: "lookup_info (requested st') None ''gone''
      = Some \<lparr>info_type = None, info_partition = None, info_cluster = None\<rparr>"
    by (auto simp: wh rows dbo_gone)
  from run t g entry_t show ?thesis by simp
qed

text \<open>
  Claim C9, as amended. A request with a project key other than the empty string always
  fails. The items before that key are introspected first, their catalog queries included;
  then \<^verbatim>\<open>ValueError("3 level db objects are not currently supported")\<close> is raised, unless one
  of those queries raised before. When the key is the first of the request, the error is
  raised before any catalog query and the state is left as it was.
\<close>

theorem introspect_three_level:
  assumes "project \<noteq> ''''"
  shows "introspect self_dataset read_data (before @ (project, datasets) # rest) st =
           (case introspect self_dataset read_data before st of
              (None, st') \<Rightarrow> (Some Three_level_objects, st')
            | (Some e, st') \<Rightarrow> (Some e, st'))
       \<and> fst (introspect self_dataset read_data (before @ (project, datasets) # rest) st) \<noteq> None
       \<and> introspect self_dataset read_data ((project, datasets) # rest) st
           = (Some Three_level_objects, st)"
proof -
  have one: "introspect self_dataset read_data ((project, datasets) # rest) st'
      = (Some Three_level_objects, st')" for st'
    using assms by simp
  have app: "introspect self_dataset read_data (before @ (project, datasets) # rest) st =
           (case introspect self_dataset read_data before st of
              (None, st') \<Rightarrow> (Some Three_level_objects, st')
            | (Some e, st') \<Rightarrow> (Some e, st'))"
    unfolding introspect_append one ..
  have "fst (introspect self_dataset read_data (before @ (project, datasets) # rest) st) \<noteq> None"
    unfolding app by (simp split: prod.splits option.splits)
  with app one show ?thesis by simp
qed

theorem introspect_three_level_witness:
  "introspect (Some ''ds'') empty_catalog
      [(''catalog'', [(Some ''namespace'', [''obj''])])]
      \<lparr>requested = Map.empty, issued = []\<rparr>
   = (Some Three_level_objects, \<lparr>requested = Map.empty, issued = []\<rparr>)"
proof -
  have "''catalog'' \<noteq> ''''" by simp
  from introspect_three_level [OF this, of "Some ''ds''" empty_catalog "[]"
      "[(Some ''namespace'', [''obj''])]" "[]" "\<lparr>requested = Map.empty, issued = []\<rparr>"]
  show ?thesis by simp
qed

text \<open>
  Claim C9 as stated fails: with an empty project key ahead of the key \<^verbatim>\<open>catalog\<close>, the
  catalog query for the dataset \<^verbatim>\<open>ns\<close> has been issued when the error is raised.
\<close>

theorem introspect_query_before_rejection_counterexample:
  "fst (introspect (Some ''ds'') empty_catalog
      [('''', [(Some ''ns'', [''t''])]), (''catalog'', [(Some ''namespace'', [''obj''])])]
      \<lparr>requested = Map.empty, issued = []\<rparr>) = Some Three_level_objects
   \<and> issued (snd (introspect (Some ''ds'') empty_catalog
      [('''', [(Some ''ns'', [''t''])]), (''catalog'', [(Some ''namespace'', [''obj''])])]
      \<lparr>requested = Map.empty, issued = []\<rparr>))
     = [\<lparr>query_dataset = Some ''ns'', query_objects = [''t'']\<rparr>]"
  by (simp add: Let_def query_for_def empty_catalog_def db_objects_def)

end
